theory Spec2Isabelle
  imports Main "HOL-Library.Sublist"
begin

section \<open>The MQTT configuration holder of \<^verbatim>\<open>conf/mqtt_conf_params.py\<close>\<close>

text \<open>
  The source is one class statement whose body is eight assignments:
  \<^verbatim>\<open>
  class MqttConfigurationParameters(object):

      BROKER_ADDRESS = "<BROKER_IP_ADDRESS>"
      BROKER_PORT = 7883
      MQTT_USERNAME = "<your_username>"
      MQTT_PASSWORD = "<your_password>"
      MQTT_BASIC_TOPIC = "/iot/user/{0}".format(MQTT_USERNAME)
      VEHICLE_TOPIC = "vehicle"
      VEHICLE_TELEMETRY_TOPIC = "telemetry"
      VEHICLE_INFO_TOPIC = "info"
  \<close>
  Python runs the body once, top to bottom, in a fresh namespace; every assignment stores
  a name there, and the one name the body reads (\<^verbatim>\<open>MQTT_USERNAME\<close>, on the line of
  \<^verbatim>\<open>MQTT_BASIC_TOPIC\<close>) is looked up in the namespace built so far, then in the
  module's globals. The namespace the body leaves behind becomes the dictionary of the
  class. The model follows that: a namespace is a map from names to values, a statement
  is a function from a namespace to an error or the next namespace, and the class body
  is the eight statements in the order of the source.
\<close>

subsection \<open>Values, namespaces and exceptions\<close>

text \<open>
  The values the body creates are strings and integers. \<open>PyObj\<close> stands for any other
  object (a function, a module, ...) that the surrounding module may hold; the body never
  creates one. Strings are byte strings (read: the UTF-8 encoding of the Python text).
\<close>

datatype pyval = PyStr string | PyInt int | PyObj nat

type_synonym namespace = "string \<rightharpoonup> pyval"

text \<open>
  The first four are Python's exception classes. \<open>NotModelled\<close> is not an exception:
  it marks a run that leaves the fragment of Python interpreted here (see \<open>str_format\<close>),
  so that no theorem below can hold by an accident of something left out.
\<close>

datatype error = ValueError | IndexError | NameError | AttributeError | NotModelled

definition bind_result :: "error + 'a \<Rightarrow> ('a \<Rightarrow> error + 'b) \<Rightarrow> error + 'b" where
  "bind_result r f = (case r of Inl e \<Rightarrow> Inl e | Inr x \<Rightarrow> f x)"

definition store_name :: "string \<Rightarrow> pyval \<Rightarrow> namespace \<Rightarrow> namespace" where
  \<comment> \<open>\<^verbatim>\<open>NAME = value\<close> in a class body\<close>
  "store_name n v ns = ns(n \<mapsto> v)"

definition load_name :: "namespace \<Rightarrow> namespace \<Rightarrow> string \<Rightarrow> error + pyval" where
  \<comment> \<open>reading a name in a class body: the body's own namespace first, then the
      globals (the builtins are taken as part of them), else NameError\<close>
  "load_name globals ns n =
     (case ns n of
        Some v \<Rightarrow> Inr v
      | None \<Rightarrow> (case globals n of Some v \<Rightarrow> Inr v | None \<Rightarrow> Inl NameError))"

subsection \<open>\<^verbatim>\<open>str.format\<close> with positional arguments\<close>

text \<open>
  The decimal text of an integer, as \<^verbatim>\<open>str\<close> gives it.
\<close>

definition digit_char :: "nat \<Rightarrow> char" where
  "digit_char d = char_of (48 + d)"

function str_of_nat :: "nat \<Rightarrow> string" where
  "str_of_nat n =
     (if n < 10 then [digit_char n] else str_of_nat (n div 10) @ [digit_char (n mod 10)])"
  by pat_completeness auto
termination
  by (relation "measure id") auto

definition str_of_int :: "int \<Rightarrow> string" where
  "str_of_int i = (if i < 0 then CHR ''-'' # str_of_nat (nat (- i)) else str_of_nat (nat i))"

definition format_value :: "pyval \<Rightarrow> error + string" where
  \<comment> \<open>\<^verbatim>\<open>format(v, "")\<close>: a string is itself, an integer its decimal text; another
      object would run its own \<^verbatim>\<open>__format__\<close>. Above 4300 digits the versions of
      CPython differ (3.11 and later raise ValueError by default, earlier ones print the
      number), so such an integer is left out\<close>
  "format_value v =
     (case v of
        PyStr s \<Rightarrow> Inr s
      | PyInt i \<Rightarrow>
          if length (str_of_nat (nat \<bar>i\<bar>)) \<le> 4300 then Inr (str_of_int i)
          else Inl NotModelled
      | PyObj _ \<Rightarrow> Inl NotModelled)"

definition is_digit :: "char \<Rightarrow> bool" where
  "is_digit c = (c \<in> set ''0123456789'')"

definition index_of_digits :: "string \<Rightarrow> nat" where
  "index_of_digits ds = foldl (\<lambda>acc c. 10 * acc + (of_char c - 48)) 0 ds"

text \<open>
  \<^verbatim>\<open>template.format(*args)\<close>, scanned left to right as CPython does:
  \<^item> \<^verbatim>\<open>{{\<close> and \<^verbatim>\<open>}}\<close> are the literal braces;
  \<^item> \<^verbatim>\<open>{N}\<close>, with \<open>N\<close> one to nine decimal digits, is replaced by the formatted
    argument \<open>N\<close>, and raises IndexError when there is no such argument; the text put in
    is not scanned again;
  \<^item> a single \<^verbatim>\<open>}\<close>, and a \<^verbatim>\<open>{\<close> or \<^verbatim>\<open>{N\<close> that the end of the template cuts
    off, raise ValueError;
  \<^item> every other replacement field (automatic numbering, names, attributes, indexing,
    conversions, format specifications) is \<open>NotModelled\<close>.
  The first failure, from the left, is the result.
\<close>

function str_format :: "string \<Rightarrow> pyval list \<Rightarrow> error + string" where
  "str_format [] args = Inr []"
| "str_format (c # cs) args =
     (if c = CHR ''{'' then
        (case cs of
           [] \<Rightarrow> Inl ValueError
         | c' # rest \<Rightarrow>
             if c' = CHR ''{'' then
               bind_result (str_format rest args) (\<lambda>t. Inr (CHR ''{'' # t))
             else
               (case dropWhile is_digit cs of
                  [] \<Rightarrow> Inl ValueError
                | r # after \<Rightarrow>
                    if r = CHR ''}'' \<and> takeWhile is_digit cs \<noteq> []
                       \<and> length (takeWhile is_digit cs) \<le> 9
                    then
                      (if index_of_digits (takeWhile is_digit cs) < length args
                       then
                         bind_result
                           (format_value (args ! index_of_digits (takeWhile is_digit cs)))
                           (\<lambda>s. bind_result (str_format after args) (\<lambda>t. Inr (s @ t)))
                       else Inl IndexError)
                    else Inl NotModelled))
      else if c = CHR ''}'' then
        (case cs of
           [] \<Rightarrow> Inl ValueError
         | c' # rest \<Rightarrow>
             if c' = CHR ''}'' then
               bind_result (str_format rest args) (\<lambda>t. Inr (CHR ''}'' # t))
             else Inl ValueError)
      else bind_result (str_format cs args) (\<lambda>t. Inr (c # t)))"
  by pat_completeness auto
termination
proof (relation "measure (\<lambda>(t, args). length t)", goal_cases)
  case (3 c cs args c' rest r after)
  have "length (dropWhile is_digit cs) \<le> length cs"
    by (rule length_dropWhile_le)
  with 3 show ?case by simp
qed auto

subsection \<open>Statements and the class body\<close>

text \<open>
  What surrounds the class statement: the module's globals (the builtins are taken as
  part of them), the namespace the body starts in (Python puts \<^verbatim>\<open>__module__\<close> and
  \<^verbatim>\<open>__qualname__\<close> there) and the attributes of the builtin class \<^verbatim>\<open>object\<close>. Nothing
  is assumed about them.
\<close>

record environment =
  env_globals :: namespace
  env_initial :: namespace
  env_object :: namespace

type_synonym expr = "namespace \<Rightarrow> namespace \<Rightarrow> error + pyval"

type_synonym stmt = "namespace \<Rightarrow> namespace \<Rightarrow> error + namespace"

definition literal :: "pyval \<Rightarrow> expr" where
  "literal v globals ns = Inr v"

definition assign :: "string \<Rightarrow> expr \<Rightarrow> stmt" where
  \<comment> \<open>\<^verbatim>\<open>NAME = expression\<close>: the expression first, then the store\<close>
  "assign n e globals ns = bind_result (e globals ns) (\<lambda>v. Inr (store_name n v ns))"

definition basic_topic_expr :: expr where
  \<comment> \<open>\<^verbatim>\<open>"/iot/user/{0}".format(MQTT_USERNAME)\<close>\<close>
  "basic_topic_expr globals ns =
     bind_result (load_name globals ns ''MQTT_USERNAME'')
       (\<lambda>u. bind_result (str_format ''/iot/user/{0}'' [u]) (\<lambda>s. Inr (PyStr s)))"

fun run_body :: "stmt list \<Rightarrow> stmt" where
  "run_body [] globals ns = Inr ns"
| "run_body (s # ss) globals ns = bind_result (s globals ns) (run_body ss globals)"

definition class_body :: "stmt list" where
  "class_body =
     [assign ''BROKER_ADDRESS'' (literal (PyStr ''<BROKER_IP_ADDRESS>'')),
      assign ''BROKER_PORT'' (literal (PyInt 7883)),
      assign ''MQTT_USERNAME'' (literal (PyStr ''<your_username>'')),
      assign ''MQTT_PASSWORD'' (literal (PyStr ''<your_password>'')),
      assign ''MQTT_BASIC_TOPIC'' basic_topic_expr,
      assign ''VEHICLE_TOPIC'' (literal (PyStr ''vehicle'')),
      assign ''VEHICLE_TELEMETRY_TOPIC'' (literal (PyStr ''telemetry'')),
      assign ''VEHICLE_INFO_TOPIC'' (literal (PyStr ''info''))]"

subsection \<open>The class, its instances and their attributes\<close>

record pyclass =
  cls_dict :: namespace
  cls_base :: namespace

record pyinstance =
  inst_dict :: namespace
  inst_class :: pyclass

definition MqttConfigurationParameters :: "environment \<Rightarrow> error + pyclass" where
  \<comment> \<open>the class the statement creates once its base expression has given the builtin
      \<^verbatim>\<open>object\<close> (see \<open>class_statement\<close> for the whole statement): run the body, and
      make the class of what it leaves, with \<^verbatim>\<open>object\<close> as the base; an exception in
      the body leaves no class\<close>
  "MqttConfigurationParameters env =
     bind_result (run_body class_body (env_globals env) (env_initial env))
       (\<lambda>ns. Inr \<lparr>cls_dict = ns, cls_base = env_object env\<rparr>)"

text \<open>
  The whole class statement, \<^verbatim>\<open>class MqttConfigurationParameters(object): ...\<close>, at
  module level. Python evaluates the base expression \<^verbatim>\<open>object\<close> first, before the body
  runs: at module level the name is looked up in the globals, and an unbound name raises
  NameError. Object identities are numbers here, and \<open>builtin_object\<close> is the identity of
  the builtin class \<^verbatim>\<open>object\<close>. Where the name is bound to anything else, that base, its
  metaclass and its hooks decide what the class becomes: \<open>NotModelled\<close>.
\<close>

definition builtin_object :: pyval where
  "builtin_object = PyObj 0"

definition class_statement :: "environment \<Rightarrow> error + pyclass" where
  "class_statement env =
     bind_result (load_name (env_globals env) (env_globals env) ''object'')
       (\<lambda>base. if base = builtin_object then MqttConfigurationParameters env
               else Inl NotModelled)"

text \<open>
  Attribute access is interpreted for plain data attributes. A name that starts with two
  underscores may be one of the descriptors of the metaclass \<^verbatim>\<open>type\<close>, whose one other
  attribute is \<^verbatim>\<open>mro\<close>, and an attribute that holds some other object may be a
  descriptor itself: these are \<open>NotModelled\<close>.
\<close>

definition is_special :: "string \<Rightarrow> bool" where
  "is_special n = (take 2 n = ''__'')"

definition mro_lookup :: "pyclass \<Rightarrow> string \<Rightarrow> pyval option" where
  \<comment> \<open>the class's own dictionary, then the base's\<close>
  "mro_lookup c n = (case cls_dict c n of Some v \<Rightarrow> Some v | None \<Rightarrow> cls_base c n)"

definition class_getattr :: "pyclass \<Rightarrow> string \<Rightarrow> error + pyval" where
  \<comment> \<open>\<^verbatim>\<open>MqttConfigurationParameters.NAME\<close>\<close>
  "class_getattr c n =
     (if is_special n \<or> n = ''mro'' then Inl NotModelled
      else (case mro_lookup c n of
              None \<Rightarrow> Inl AttributeError
            | Some (PyObj _) \<Rightarrow> Inl NotModelled
            | Some v \<Rightarrow> Inr v))"

definition class_setattr :: "pyclass \<Rightarrow> string \<Rightarrow> pyval \<Rightarrow> error + pyclass" where
  \<comment> \<open>\<^verbatim>\<open>MqttConfigurationParameters.NAME = v\<close>: a store in the class's own dictionary\<close>
  "class_setattr c n v =
     (if is_special n then Inl NotModelled
      else Inr (c\<lparr>cls_dict := (cls_dict c)(n \<mapsto> v)\<rparr>))"

definition instantiate :: "pyclass \<Rightarrow> pyinstance" where
  \<comment> \<open>\<^verbatim>\<open>MqttConfigurationParameters()\<close>: the class defines no \<^verbatim>\<open>__init__\<close>, the new
      instance has an empty dictionary. \<open>inst_class\<close> is the class as it is when the
      instance is made; the properties below read instances of the class state at hand
      only, never an instance made before a store to the class\<close>
  "instantiate c = \<lparr>inst_dict = Map.empty, inst_class = c\<rparr>"

definition instance_getattr :: "pyinstance \<Rightarrow> string \<Rightarrow> error + pyval" where
  \<comment> \<open>\<^verbatim>\<open>obj.NAME\<close>: the instance's dictionary, then the class\<close>
  "instance_getattr i n =
     (if is_special n then Inl NotModelled
      else (case mro_lookup (inst_class i) n of
              Some (PyObj _) \<Rightarrow> Inl NotModelled
            | cv \<Rightarrow>
                (case inst_dict i n of
                   Some v \<Rightarrow> Inr v
                 | None \<Rightarrow> (case cv of None \<Rightarrow> Inl AttributeError | Some v \<Rightarrow> Inr v))))"

definition instance_setattr :: "pyinstance \<Rightarrow> string \<Rightarrow> pyval \<Rightarrow> error + pyinstance" where
  \<comment> \<open>\<^verbatim>\<open>obj.NAME = v\<close>: a store in the instance's dictionary, the class untouched\<close>
  "instance_setattr i n v =
     (if is_special n then Inl NotModelled
      else (case mro_lookup (inst_class i) n of
              Some (PyObj _) \<Rightarrow> Inl NotModelled
            | _ \<Rightarrow> Inr (i\<lparr>inst_dict := (inst_dict i)(n \<mapsto> v)\<rparr>)))"

text \<open>The eight names the class body defines, in the order of the source.\<close>

definition field_names :: "string list" where
  "field_names =
     [''BROKER_ADDRESS'', ''BROKER_PORT'', ''MQTT_USERNAME'', ''MQTT_PASSWORD'',
      ''MQTT_BASIC_TOPIC'', ''VEHICLE_TOPIC'', ''VEHICLE_TELEMETRY_TOPIC'',
      ''VEHICLE_INFO_TOPIC'']"

text \<open>
  An attribute read as a step on the state. A read that finds a plain value gives the
  value and the class as the read leaves it, which is the class as it was: no code runs.
  A read that raises, or that is \<open>NotModelled\<close> (where a descriptor could run code),
  gives no state. \<open>read_all\<close> is a sequence of reads, each on the state the one before
  left.
\<close>

definition read_attr :: "pyclass \<Rightarrow> string \<Rightarrow> error + pyval \<times> pyclass" where
  "read_attr c n = bind_result (class_getattr c n) (\<lambda>v. Inr (v, c))"

fun read_all :: "pyclass \<Rightarrow> string list \<Rightarrow> error + pyval list \<times> pyclass" where
  "read_all c [] = Inr ([], c)"
| "read_all c (n # ns) =
     bind_result (read_attr c n)
       (\<lambda>(v, c'). bind_result (read_all c' ns) (\<lambda>(vs, c''). Inr (v # vs, c'')))"

text \<open>
  The namespace that running the class body in \<open>ns\<close> leaves (lemma \<open>run_class_body\<close>
  below): \<open>ns\<close> with the eight names stored.
\<close>

definition defined_namespace :: "namespace \<Rightarrow> namespace" where
  "defined_namespace ns =
     ns(''BROKER_ADDRESS'' \<mapsto> PyStr ''<BROKER_IP_ADDRESS>'',
        ''BROKER_PORT'' \<mapsto> PyInt 7883,
        ''MQTT_USERNAME'' \<mapsto> PyStr ''<your_username>'',
        ''MQTT_PASSWORD'' \<mapsto> PyStr ''<your_password>'',
        ''MQTT_BASIC_TOPIC'' \<mapsto> PyStr ''/iot/user/<your_username>'',
        ''VEHICLE_TOPIC'' \<mapsto> PyStr ''vehicle'',
        ''VEHICLE_TELEMETRY_TOPIC'' \<mapsto> PyStr ''telemetry'',
        ''VEHICLE_INFO_TOPIC'' \<mapsto> PyStr ''info'')"

section \<open>Running the class body\<close>

lemma bind_result_Inr: "bind_result (Inr x) f = f x"
  by (simp add: bind_result_def)

lemma str_format_topic:
  "str_format ''/iot/user/{0}'' [u] =
     bind_result (format_value u) (\<lambda>s. Inr (''/iot/user/'' @ s))"
  by (simp add: is_digit_def index_of_digits_def bind_result_def split: sum.splits)

lemma basic_topic_expr_str:
  "ns ''MQTT_USERNAME'' = Some (PyStr u) \<Longrightarrow>
   basic_topic_expr globals ns = Inr (PyStr (''/iot/user/'' @ u))"
  unfolding basic_topic_expr_def load_name_def str_format_topic
  by (simp add: format_value_def bind_result_def)

lemma assign_literal: "assign n (literal v) globals ns = Inr (ns(n \<mapsto> v))"
  by (simp add: assign_def literal_def bind_result_def store_name_def)

lemma assign_basic_topic:
  "ns ''MQTT_USERNAME'' = Some (PyStr u) \<Longrightarrow>
   assign ''MQTT_BASIC_TOPIC'' basic_topic_expr globals ns =
     Inr (ns(''MQTT_BASIC_TOPIC'' \<mapsto> PyStr (''/iot/user/'' @ u)))"
  by (simp add: assign_def basic_topic_expr_str bind_result_def store_name_def)

lemma run_class_body: "run_body class_body globals ns = Inr (defined_namespace ns)"
  unfolding class_body_def defined_namespace_def
  by (simp add: assign_literal assign_basic_topic bind_result_Inr)

lemma class_defined:
  "MqttConfigurationParameters env =
     Inr \<lparr>cls_dict = defined_namespace (env_initial env), cls_base = env_object env\<rparr>"
  by (simp add: MqttConfigurationParameters_def run_class_body bind_result_Inr)

lemma defined_fields:
  "defined_namespace ns ''BROKER_ADDRESS'' = Some (PyStr ''<BROKER_IP_ADDRESS>'')"
  "defined_namespace ns ''BROKER_PORT'' = Some (PyInt 7883)"
  "defined_namespace ns ''MQTT_USERNAME'' = Some (PyStr ''<your_username>'')"
  "defined_namespace ns ''MQTT_PASSWORD'' = Some (PyStr ''<your_password>'')"
  "defined_namespace ns ''MQTT_BASIC_TOPIC'' = Some (PyStr ''/iot/user/<your_username>'')"
  "defined_namespace ns ''VEHICLE_TOPIC'' = Some (PyStr ''vehicle'')"
  "defined_namespace ns ''VEHICLE_TELEMETRY_TOPIC'' = Some (PyStr ''telemetry'')"
  "defined_namespace ns ''VEHICLE_INFO_TOPIC'' = Some (PyStr ''info'')"
  by (simp_all add: defined_namespace_def)

lemma special_simps:
  "\<not> is_special ''BROKER_ADDRESS''" "\<not> is_special ''BROKER_PORT''"
  "\<not> is_special ''MQTT_USERNAME''" "\<not> is_special ''MQTT_PASSWORD''"
  "\<not> is_special ''MQTT_BASIC_TOPIC''" "\<not> is_special ''VEHICLE_TOPIC''"
  "\<not> is_special ''VEHICLE_TELEMETRY_TOPIC''" "\<not> is_special ''VEHICLE_INFO_TOPIC''"
  by (simp_all add: is_special_def)

section \<open>Reading attributes of the class and of a fresh instance\<close>

lemma class_getattr_own:
  "cls_dict c n = Some v \<Longrightarrow> \<not> is_special n \<Longrightarrow> n \<noteq> ''mro'' \<Longrightarrow>
   (\<forall>k. v \<noteq> PyObj k) \<Longrightarrow> class_getattr c n = Inr v"
  by (cases v) (auto simp: class_getattr_def mro_lookup_def)

lemma instance_getattr_fresh:
  "cls_dict c n = Some v \<Longrightarrow> \<not> is_special n \<Longrightarrow> (\<forall>k. v \<noteq> PyObj k) \<Longrightarrow>
   instance_getattr (instantiate c) n = Inr v"
  by (cases v) (auto simp: instance_getattr_def instantiate_def mro_lookup_def)

lemma class_fields:
  assumes "cls_dict c = defined_namespace ns"
  shows "class_getattr c ''BROKER_ADDRESS'' = Inr (PyStr ''<BROKER_IP_ADDRESS>'')"
    and "class_getattr c ''BROKER_PORT'' = Inr (PyInt 7883)"
    and "class_getattr c ''MQTT_USERNAME'' = Inr (PyStr ''<your_username>'')"
    and "class_getattr c ''MQTT_PASSWORD'' = Inr (PyStr ''<your_password>'')"
    and "class_getattr c ''MQTT_BASIC_TOPIC'' = Inr (PyStr ''/iot/user/<your_username>'')"
    and "class_getattr c ''VEHICLE_TOPIC'' = Inr (PyStr ''vehicle'')"
    and "class_getattr c ''VEHICLE_TELEMETRY_TOPIC'' = Inr (PyStr ''telemetry'')"
    and "class_getattr c ''VEHICLE_INFO_TOPIC'' = Inr (PyStr ''info'')"
  using assms by (simp_all add: class_getattr_own defined_fields special_simps)

lemma instance_fields:
  assumes "cls_dict c = defined_namespace ns"
  shows "map (instance_getattr (instantiate c)) field_names = map (class_getattr c) field_names"
  using assms
  by (simp add: field_names_def class_fields [OF assms] instance_getattr_fresh
        defined_fields special_simps)

lemma class_fields_list:
  assumes "cls_dict c = defined_namespace ns"
  shows "map (class_getattr c) field_names =
     [Inr (PyStr ''<BROKER_IP_ADDRESS>''), Inr (PyInt 7883), Inr (PyStr ''<your_username>''),
      Inr (PyStr ''<your_password>''), Inr (PyStr ''/iot/user/<your_username>''),
      Inr (PyStr ''vehicle''), Inr (PyStr ''telemetry''), Inr (PyStr ''info'')]"
  by (simp add: field_names_def class_fields [OF assms])

lemma field_read:
  assumes d: "cls_dict c = defined_namespace ns"
  shows "\<forall>n \<in> set field_names.
           \<exists>v. read_attr c n = Inr (v, c) \<and> cls_dict c n = Some v
              \<and> instance_getattr (instantiate c) n = Inr v"
  by (simp add: field_names_def read_attr_def bind_result_Inr class_fields [OF d] d
        defined_fields instance_getattr_fresh special_simps)

lemma read_all_fields:
  assumes d: "cls_dict c = defined_namespace ns"
  shows "set ms \<subseteq> set field_names \<Longrightarrow>
         \<exists>vs. read_all c ms = Inr (vs, c) \<and> map Inr vs = map (class_getattr c) ms"
proof (induction ms)
  case Nil
  show ?case by simp
next
  case (Cons m ms)
  from Cons.prems have "m \<in> set field_names"
    by simp
  with field_read [OF d] have "\<exists>v. read_attr c m = Inr (v, c) \<and> cls_dict c m = Some v
      \<and> instance_getattr (instantiate c) m = Inr v"
    by (rule bspec)
  then obtain v where v: "read_attr c m = Inr (v, c)"
    by (elim exE conjE)
  then have g: "class_getattr c m = Inr v"
    by (simp add: read_attr_def bind_result_def split: sum.splits)
  from Cons.prems have "set ms \<subseteq> set field_names"
    by simp
  then have "\<exists>vs. read_all c ms = Inr (vs, c) \<and> map Inr vs = map (class_getattr c) ms"
    by (rule Cons.IH)
  then obtain vs where
    vs: "read_all c ms = Inr (vs, c)" "map Inr vs = map (class_getattr c) ms"
    by (elim exE conjE)
  have "read_all c (m # ms) = Inr (v # vs, c)"
    by (simp add: v vs(1) bind_result_Inr)
  moreover have "map Inr (v # vs) = map (class_getattr c) (m # ms)"
    by (simp add: g vs(2))
  ultimately show ?case
    by (intro exI [of _ "v # vs"] conjI)
qed

section \<open>The class statement and its base\<close>

lemma class_statement_builtin:
  "env_globals env ''object'' = Some builtin_object \<Longrightarrow>
   class_statement env = MqttConfigurationParameters env"
  by (simp add: class_statement_def load_name_def bind_result_Inr)

lemma class_statement_unbound:
  "env_globals env ''object'' = None \<Longrightarrow> class_statement env = Inl NameError"
  by (simp add: class_statement_def load_name_def bind_result_def)

lemma class_statement_other_base:
  "env_globals env ''object'' = Some b \<Longrightarrow> b \<noteq> builtin_object \<Longrightarrow>
   class_statement env = Inl NotModelled"
  by (simp add: class_statement_def load_name_def bind_result_Inr)

section \<open>Statements of the body, and stores to attributes\<close>

lemma class_body_nth:
  "class_body ! 0 = assign ''BROKER_ADDRESS'' (literal (PyStr ''<BROKER_IP_ADDRESS>''))"
  "class_body ! 2 = assign ''MQTT_USERNAME'' (literal (PyStr ''<your_username>''))"
  "class_body ! 3 = assign ''MQTT_PASSWORD'' (literal (PyStr ''<your_password>''))"
  "class_body ! 5 = assign ''VEHICLE_TOPIC'' (literal (PyStr ''vehicle''))"
  "class_body ! 6 = assign ''VEHICLE_TELEMETRY_TOPIC'' (literal (PyStr ''telemetry''))"
  "class_body ! 7 = assign ''VEHICLE_INFO_TOPIC'' (literal (PyStr ''info''))"
  by (simp_all add: class_body_def)

lemma class_setattr_ok:
  "\<not> is_special n \<Longrightarrow> class_setattr c n v = Inr (c\<lparr>cls_dict := (cls_dict c)(n \<mapsto> v)\<rparr>)"
  by (simp add: class_setattr_def)

lemma class_getattr_other:
  "n \<noteq> m \<Longrightarrow> class_getattr (c\<lparr>cls_dict := (cls_dict c)(m \<mapsto> v)\<rparr>) n = class_getattr c n"
  by (simp add: class_getattr_def mro_lookup_def split: option.splits)

lemma instance_setattr_fresh:
  "cls_dict c n = Some (PyStr s) \<Longrightarrow> \<not> is_special n \<Longrightarrow>
   instance_setattr (instantiate c) n v = Inr \<lparr>inst_dict = [n \<mapsto> v], inst_class = c\<rparr>"
  by (simp add: instance_setattr_def instantiate_def mro_lookup_def)

lemma instance_getattr_class_value:
  "cls_dict c n = Some (PyStr s) \<Longrightarrow> \<not> is_special n \<Longrightarrow> d n = None \<Longrightarrow>
   instance_getattr \<lparr>inst_dict = d, inst_class = c\<rparr> n = Inr (PyStr s)"
  by (simp add: instance_getattr_def mro_lookup_def)

section \<open>Properties of the configuration holder\<close>

text \<open>
  C1. For every username \<open>u\<close>, the basic topic derived from it, that is the template
  \<^verbatim>\<open>"/iot/user/{0}"\<close> formatted with \<open>u\<close>, is the prefix \<^verbatim>\<open>/iot/user/\<close> followed by
  \<open>u\<close>: the expression of the source gives it in every namespace where
  \<^verbatim>\<open>MQTT_USERNAME\<close> is \<open>u\<close>. In particular the class as defined has
  \<^verbatim>\<open>MQTT_BASIC_TOPIC\<close> equal to the prefix followed by its \<^verbatim>\<open>MQTT_USERNAME\<close>, and the
  username \<^verbatim>\<open>alice\<close> gives \<^verbatim>\<open>/iot/user/alice\<close>.
\<close>

theorem basic_topic_is_prefix_and_username:
  "(ns ''MQTT_USERNAME'' = Some (PyStr u) \<longrightarrow>
      basic_topic_expr globals ns = Inr (PyStr (''/iot/user/'' @ u)))
   \<and> (\<exists>c name. MqttConfigurationParameters env = Inr c
          \<and> class_getattr c ''MQTT_USERNAME'' = Inr (PyStr name)
          \<and> class_getattr c ''MQTT_BASIC_TOPIC'' = Inr (PyStr (''/iot/user/'' @ name)))
   \<and> basic_topic_expr globals (store_name ''MQTT_USERNAME'' (PyStr ''alice'') ns)
        = Inr (PyStr ''/iot/user/alice'')"
proof (intro conjI impI)
  assume "ns ''MQTT_USERNAME'' = Some (PyStr u)"
  then show "basic_topic_expr globals ns = Inr (PyStr (''/iot/user/'' @ u))"
    by (rule basic_topic_expr_str)
next
  let ?c = "\<lparr>cls_dict = defined_namespace (env_initial env), cls_base = env_object env\<rparr>"
  have "MqttConfigurationParameters env = Inr ?c"
    by (rule class_defined)
  moreover have "class_getattr ?c ''MQTT_USERNAME'' = Inr (PyStr ''<your_username>'')"
    by (rule class_fields) simp
  moreover have
    "class_getattr ?c ''MQTT_BASIC_TOPIC'' = Inr (PyStr (''/iot/user/'' @ ''<your_username>''))"
    using class_fields(5) [of ?c] by simp
  ultimately show "\<exists>c name. MqttConfigurationParameters env = Inr c
          \<and> class_getattr c ''MQTT_USERNAME'' = Inr (PyStr name)
          \<and> class_getattr c ''MQTT_BASIC_TOPIC'' = Inr (PyStr (''/iot/user/'' @ name))"
    by blast
next
  have "store_name ''MQTT_USERNAME'' (PyStr ''alice'') ns ''MQTT_USERNAME''
          = Some (PyStr ''alice'')"
    by (simp add: store_name_def)
  from basic_topic_expr_str
    [where ns = "store_name ''MQTT_USERNAME'' (PyStr ''alice'') ns" and u = "''alice''", OF this]
  show "basic_topic_expr globals (store_name ''MQTT_USERNAME'' (PyStr ''alice'') ns)
        = Inr (PyStr ''/iot/user/alice'')"
    by simp
qed

theorem basic_topic_is_prefix_and_username_witness:
  "[''MQTT_USERNAME'' \<mapsto> PyStr ''bob''] ''MQTT_USERNAME'' = Some (PyStr ''bob'')
   \<and> basic_topic_expr Map.empty [''MQTT_USERNAME'' \<mapsto> PyStr ''bob'']
        = Inr (PyStr ''/iot/user/bob'')"
  using basic_topic_is_prefix_and_username
    [of "[''MQTT_USERNAME'' \<mapsto> PyStr ''bob'']" "''bob''" Map.empty
        "\<lparr>env_globals = Map.empty, env_initial = Map.empty, env_object = Map.empty\<rparr>"]
  by simp

text \<open>
  C2. \<^verbatim>\<open>MQTT_BASIC_TOPIC\<close> is fixed when the class is defined, from the username of that
  moment. Storing any value \<open>v\<close> in \<^verbatim>\<open>MQTT_USERNAME\<close> afterwards succeeds, and the class
  then holds \<open>v\<close> there, the same \<^verbatim>\<open>MQTT_BASIC_TOPIC\<close> as before
  (\<^verbatim>\<open>/iot/user/<your_username>\<close>) and the same value under every other name. The same
  frame holds for a store into any class state \<open>k\<close>, hence after any number of
  reassignments, and for a store through an instance, which leaves the class as it is.
\<close>

theorem username_reassignment_keeps_basic_topic:
  "\<exists>c c' i'. MqttConfigurationParameters env = Inr c
     \<and> class_getattr c ''MQTT_BASIC_TOPIC'' = Inr (PyStr ''/iot/user/<your_username>'')
     \<and> class_setattr c ''MQTT_USERNAME'' v = Inr c'
     \<and> cls_dict c' ''MQTT_USERNAME'' = Some v
     \<and> class_getattr c' ''MQTT_BASIC_TOPIC'' = Inr (PyStr ''/iot/user/<your_username>'')
     \<and> (\<forall>n. n \<noteq> ''MQTT_USERNAME'' \<longrightarrow>
            cls_dict c' n = cls_dict c n \<and> class_getattr c' n = class_getattr c n)
     \<and> (\<exists>k'. class_setattr k ''MQTT_USERNAME'' v = Inr k'
            \<and> (\<forall>n. n \<noteq> ''MQTT_USERNAME'' \<longrightarrow> class_getattr k' n = class_getattr k n))
     \<and> instance_setattr (instantiate c) ''MQTT_USERNAME'' v = Inr i'
     \<and> inst_class i' = c
     \<and> instance_getattr i' ''MQTT_BASIC_TOPIC'' = Inr (PyStr ''/iot/user/<your_username>'')"
proof -
  define c where
    "c = \<lparr>cls_dict = defined_namespace (env_initial env), cls_base = env_object env\<rparr>"
  define c' where "c' = c\<lparr>cls_dict := (cls_dict c)(''MQTT_USERNAME'' \<mapsto> v)\<rparr>"
  define k' where "k' = k\<lparr>cls_dict := (cls_dict k)(''MQTT_USERNAME'' \<mapsto> v)\<rparr>"
  define i' where "i' = \<lparr>inst_dict = [''MQTT_USERNAME'' \<mapsto> v], inst_class = c\<rparr>"
  have d: "cls_dict c = defined_namespace (env_initial env)"
    by (simp add: c_def)
  have built: "MqttConfigurationParameters env = Inr c"
    unfolding c_def by (rule class_defined)
  have topic: "class_getattr c ''MQTT_BASIC_TOPIC'' = Inr (PyStr ''/iot/user/<your_username>'')"
    using d by (rule class_fields)
  have set: "class_setattr c ''MQTT_USERNAME'' v = Inr c'"
    unfolding c'_def by (rule class_setattr_ok) (rule special_simps)
  have stored: "cls_dict c' ''MQTT_USERNAME'' = Some v"
    by (simp add: c'_def)
  have frame: "\<forall>n. n \<noteq> ''MQTT_USERNAME'' \<longrightarrow>
      cls_dict c' n = cls_dict c n \<and> class_getattr c' n = class_getattr c n"
    unfolding c'_def by (simp add: class_getattr_other)
  have "class_getattr c' ''MQTT_BASIC_TOPIC'' = class_getattr c ''MQTT_BASIC_TOPIC''"
    unfolding c'_def by (rule class_getattr_other) simp
  with topic
  have topic': "class_getattr c' ''MQTT_BASIC_TOPIC'' = Inr (PyStr ''/iot/user/<your_username>'')"
    by simp
  have kset: "class_setattr k ''MQTT_USERNAME'' v = Inr k'"
    unfolding k'_def by (rule class_setattr_ok) (rule special_simps)
  have kframe: "\<forall>n. n \<noteq> ''MQTT_USERNAME'' \<longrightarrow> class_getattr k' n = class_getattr k n"
    unfolding k'_def by (simp add: class_getattr_other)
  have any: "\<exists>k'. class_setattr k ''MQTT_USERNAME'' v = Inr k'
            \<and> (\<forall>n. n \<noteq> ''MQTT_USERNAME'' \<longrightarrow> class_getattr k' n = class_getattr k n)"
    by (rule exI [of _ k'], intro conjI) (rule kset kframe)+
  have user: "cls_dict c ''MQTT_USERNAME'' = Some (PyStr ''<your_username>'')"
    by (simp add: d defined_fields)
  have iset: "instance_setattr (instantiate c) ''MQTT_USERNAME'' v = Inr i'"
    unfolding i'_def using user by (rule instance_setattr_fresh) (rule special_simps)
  have icls: "inst_class i' = c"
    by (simp add: i'_def)
  have "cls_dict c ''MQTT_BASIC_TOPIC'' = Some (PyStr ''/iot/user/<your_username>'')"
    by (simp add: d defined_fields)
  then have itopic:
    "instance_getattr i' ''MQTT_BASIC_TOPIC'' = Inr (PyStr ''/iot/user/<your_username>'')"
    unfolding i'_def by (rule instance_getattr_class_value) (simp_all add: special_simps)
  show ?thesis
    by (rule exI [of _ c], rule exI [of _ c'], rule exI [of _ i'], intro conjI)
       (rule built topic set stored topic' frame any iset icls itopic)+
qed

theorem username_reassignment_keeps_basic_topic_witness:
  "\<exists>c c'. MqttConfigurationParameters
             \<lparr>env_globals = Map.empty, env_initial = Map.empty, env_object = Map.empty\<rparr> = Inr c
     \<and> class_setattr c ''MQTT_USERNAME'' (PyStr ''alice'') = Inr c'
     \<and> ''MQTT_PASSWORD'' \<noteq> ''MQTT_USERNAME''
     \<and> class_getattr c' ''MQTT_PASSWORD'' = class_getattr c ''MQTT_PASSWORD''
     \<and> class_getattr c' ''MQTT_BASIC_TOPIC'' = Inr (PyStr ''/iot/user/<your_username>'')"
proof -
  have ne: "''MQTT_PASSWORD'' \<noteq> ''MQTT_USERNAME''"
    by simp
  from username_reassignment_keeps_basic_topic
    [of "\<lparr>env_globals = Map.empty, env_initial = Map.empty, env_object = Map.empty\<rparr>"
        "PyStr ''alice''" "\<lparr>cls_dict = Map.empty, cls_base = Map.empty\<rparr>"]
  show ?thesis
  proof (elim exE conjE)
    fix c c'
    assume built: "MqttConfigurationParameters
       \<lparr>env_globals = Map.empty, env_initial = Map.empty, env_object = Map.empty\<rparr> = Inr c"
      and set: "class_setattr c ''MQTT_USERNAME'' (PyStr ''alice'') = Inr c'"
      and topic': "class_getattr c' ''MQTT_BASIC_TOPIC'' = Inr (PyStr ''/iot/user/<your_username>'')"
      and frame: "\<forall>n. n \<noteq> ''MQTT_USERNAME'' \<longrightarrow>
        cls_dict c' n = cls_dict c n \<and> class_getattr c' n = class_getattr c n"
    from frame
    have pw: "class_getattr c' ''MQTT_PASSWORD'' = class_getattr c ''MQTT_PASSWORD''"
      by simp
    show ?thesis
      by (rule exI [of _ c], rule exI [of _ c'], intro conjI)
         (rule built set ne pw topic')+
  qed
qed

text \<open>
  C3. \<^verbatim>\<open>BROKER_PORT\<close> is the integer 7883, a positive integer in the port range
  1 to 65535, whatever surrounds the class statement.
\<close>

theorem broker_port_value_and_range:
  "\<exists>c p. MqttConfigurationParameters env = Inr c
     \<and> class_getattr c ''BROKER_PORT'' = Inr (PyInt p)
     \<and> p = 7883 \<and> 0 < p \<and> 1 \<le> p \<and> p \<le> 65535"
proof -
  let ?c = "\<lparr>cls_dict = defined_namespace (env_initial env), cls_base = env_object env\<rparr>"
  have "MqttConfigurationParameters env = Inr ?c"
    by (rule class_defined)
  moreover have "class_getattr ?c ''BROKER_PORT'' = Inr (PyInt 7883)"
    by (rule class_fields) simp
  ultimately show ?thesis
    by fastforce
qed

text \<open>
  C4. The three topic segments are the literals of the source: \<^verbatim>\<open>VEHICLE_TOPIC\<close> is
  \<^verbatim>\<open>vehicle\<close>, \<^verbatim>\<open>VEHICLE_TELEMETRY_TOPIC\<close> is \<^verbatim>\<open>telemetry\<close> and
  \<^verbatim>\<open>VEHICLE_INFO_TOPIC\<close> is \<^verbatim>\<open>info\<close>.
\<close>

theorem topic_segment_values:
  "\<exists>c. MqttConfigurationParameters env = Inr c
     \<and> class_getattr c ''VEHICLE_TOPIC'' = Inr (PyStr ''vehicle'')
     \<and> class_getattr c ''VEHICLE_TELEMETRY_TOPIC'' = Inr (PyStr ''telemetry'')
     \<and> class_getattr c ''VEHICLE_INFO_TOPIC'' = Inr (PyStr ''info'')"
proof -
  let ?c = "\<lparr>cls_dict = defined_namespace (env_initial env), cls_base = env_object env\<rparr>"
  have d: "cls_dict ?c = defined_namespace (env_initial env)"
    by simp
  have "MqttConfigurationParameters env = Inr ?c"
    by (rule class_defined)
  with class_fields(6-8) [OF d] show ?thesis
    by blast
qed

text \<open>
  C5. Every topic segment is a non-empty string literal without side effects: run in any
  namespace and under any globals, each of the three statements succeeds and stores its
  own name only, and the three strings the class then holds are not empty.
\<close>

theorem topic_segments_nonempty_pure_literals:
  "(class_body ! 5) globals ns = Inr (ns(''VEHICLE_TOPIC'' \<mapsto> PyStr ''vehicle''))
   \<and> (class_body ! 6) globals ns = Inr (ns(''VEHICLE_TELEMETRY_TOPIC'' \<mapsto> PyStr ''telemetry''))
   \<and> (class_body ! 7) globals ns = Inr (ns(''VEHICLE_INFO_TOPIC'' \<mapsto> PyStr ''info''))
   \<and> (\<exists>c s1 s2 s3. MqttConfigurationParameters env = Inr c
          \<and> class_getattr c ''VEHICLE_TOPIC'' = Inr (PyStr s1)
          \<and> class_getattr c ''VEHICLE_TELEMETRY_TOPIC'' = Inr (PyStr s2)
          \<and> class_getattr c ''VEHICLE_INFO_TOPIC'' = Inr (PyStr s3)
          \<and> s1 \<noteq> [] \<and> s2 \<noteq> [] \<and> s3 \<noteq> [])"
proof (intro conjI)
  define c where "c = \<lparr>cls_dict = defined_namespace (env_initial env), cls_base = env_object env\<rparr>"
  have d: "cls_dict c = defined_namespace (env_initial env)"
    by (simp add: c_def)
  have built: "MqttConfigurationParameters env = Inr c"
    unfolding c_def by (rule class_defined)
  show "\<exists>c s1 s2 s3. MqttConfigurationParameters env = Inr c
          \<and> class_getattr c ''VEHICLE_TOPIC'' = Inr (PyStr s1)
          \<and> class_getattr c ''VEHICLE_TELEMETRY_TOPIC'' = Inr (PyStr s2)
          \<and> class_getattr c ''VEHICLE_INFO_TOPIC'' = Inr (PyStr s3)
          \<and> s1 \<noteq> [] \<and> s2 \<noteq> [] \<and> s3 \<noteq> []"
    by (rule exI [of _ c], rule exI [of _ "''vehicle''"], rule exI [of _ "''telemetry''"],
        rule exI [of _ "''info''"])
       (simp add: built class_fields [OF d])
qed (simp_all add: class_body_nth assign_literal)

text \<open>
  C6. The configuration holder is deterministic. Take any two environments in which the
  base name \<^verbatim>\<open>object\<close> is the builtin class, as it is whenever the module is imported;
  their other globals, starting namespaces and base attributes are arbitrary. The class
  statement succeeds in both, and the eight fields of the two classes read alike; a
  fresh instance of either reads the same values as the class; any sequence \<open>ms\<close> of
  reads of the fields succeeds, returns the values single reads return, and leaves a
  class whose fields read as before; and the values are the eight constants listed.
\<close>

theorem configuration_independent_of_environment:
  assumes "env_globals env1 ''object'' = Some builtin_object"
    and "env_globals env2 ''object'' = Some builtin_object"
    and "set ms \<subseteq> set field_names"
  shows "\<exists>c1 c2 vs c1'. class_statement env1 = Inr c1
     \<and> class_statement env2 = Inr c2
     \<and> map (class_getattr c1) field_names = map (class_getattr c2) field_names
     \<and> map (instance_getattr (instantiate c1)) field_names = map (class_getattr c1) field_names
     \<and> map (instance_getattr (instantiate c2)) field_names = map (class_getattr c1) field_names
     \<and> read_all c1 ms = Inr (vs, c1')
     \<and> map Inr vs = map (class_getattr c1) ms
     \<and> map (class_getattr c1') field_names = map (class_getattr c1) field_names
     \<and> map (class_getattr c1) field_names =
         [Inr (PyStr ''<BROKER_IP_ADDRESS>''), Inr (PyInt 7883), Inr (PyStr ''<your_username>''),
          Inr (PyStr ''<your_password>''), Inr (PyStr ''/iot/user/<your_username>''),
          Inr (PyStr ''vehicle''), Inr (PyStr ''telemetry''), Inr (PyStr ''info'')]"
proof -
  define c1 where
    "c1 = \<lparr>cls_dict = defined_namespace (env_initial env1), cls_base = env_object env1\<rparr>"
  define c2 where
    "c2 = \<lparr>cls_dict = defined_namespace (env_initial env2), cls_base = env_object env2\<rparr>"
  have d1: "cls_dict c1 = defined_namespace (env_initial env1)"
    by (simp add: c1_def)
  have d2: "cls_dict c2 = defined_namespace (env_initial env2)"
    by (simp add: c2_def)
  have "class_statement env1 = MqttConfigurationParameters env1"
    using assms(1) by (rule class_statement_builtin)
  then have b1: "class_statement env1 = Inr c1"
    unfolding c1_def by (simp only: class_defined)
  have "class_statement env2 = MqttConfigurationParameters env2"
    using assms(2) by (rule class_statement_builtin)
  then have b2: "class_statement env2 = Inr c2"
    unfolding c2_def by (simp only: class_defined)
  note l1 = class_fields_list [OF d1] and l2 = class_fields_list [OF d2]
  have same: "map (class_getattr c1) field_names = map (class_getattr c2) field_names"
    by (simp only: l1 l2)
  have i1: "map (instance_getattr (instantiate c1)) field_names = map (class_getattr c1) field_names"
    using d1 by (rule instance_fields)
  have "map (instance_getattr (instantiate c2)) field_names = map (class_getattr c2) field_names"
    using d2 by (rule instance_fields)
  with same
  have i2: "map (instance_getattr (instantiate c2)) field_names = map (class_getattr c1) field_names"
    by simp
  from read_all_fields [OF d1 assms(3)] obtain vs where
    r: "read_all c1 ms = Inr (vs, c1)" and rv: "map Inr vs = map (class_getattr c1) ms"
    by (elim exE conjE)
  show ?thesis
    by (rule exI [of _ c1], rule exI [of _ c2], rule exI [of _ vs], rule exI [of _ c1],
        intro conjI)
       (rule b1 b2 same i1 i2 r rv refl l1)+
qed

theorem configuration_independent_of_environment_witness:
  "[''object'' \<mapsto> builtin_object] ''object'' = Some builtin_object
   \<and> [''object'' \<mapsto> builtin_object, ''x'' \<mapsto> PyInt 1] ''object'' = Some builtin_object
   \<and> set [''BROKER_PORT'', ''MQTT_BASIC_TOPIC'', ''BROKER_PORT''] \<subseteq> set field_names
   \<and> (\<exists>c1 c2 c1'.
         class_statement
           \<lparr>env_globals = [''object'' \<mapsto> builtin_object], env_initial = Map.empty,
              env_object = Map.empty\<rparr> = Inr c1
       \<and> class_statement
           \<lparr>env_globals = [''object'' \<mapsto> builtin_object, ''x'' \<mapsto> PyInt 1],
              env_initial = [''__module__'' \<mapsto> PyStr ''conf''],
              env_object = Map.empty\<rparr> = Inr c2
       \<and> map (class_getattr c1) field_names = map (class_getattr c2) field_names
       \<and> read_all c1 [''BROKER_PORT'', ''MQTT_BASIC_TOPIC'', ''BROKER_PORT'']
            = Inr ([PyInt 7883, PyStr ''/iot/user/<your_username>'', PyInt 7883], c1')
       \<and> map (class_getattr c1') field_names = map (class_getattr c1) field_names)"
proof -
  let ?e1 = "\<lparr>env_globals = [''object'' \<mapsto> builtin_object], env_initial = Map.empty,
              env_object = Map.empty\<rparr>"
  let ?e2 = "\<lparr>env_globals = [''object'' \<mapsto> builtin_object, ''x'' \<mapsto> PyInt 1],
              env_initial = [''__module__'' \<mapsto> PyStr ''conf''],
              env_object = Map.empty\<rparr>"
  let ?ms = "[''BROKER_PORT'', ''MQTT_BASIC_TOPIC'', ''BROKER_PORT'']"
  have h1: "env_globals ?e1 ''object'' = Some builtin_object"
    by simp
  have h2: "env_globals ?e2 ''object'' = Some builtin_object"
    by simp
  have h3: "set ?ms \<subseteq> set field_names"
    by (simp add: field_names_def)
  from configuration_independent_of_environment [OF h1 h2 h3]
  obtain c1 c2 vs c1' where
    b1: "class_statement ?e1 = Inr c1" and b2: "class_statement ?e2 = Inr c2"
    and same: "map (class_getattr c1) field_names = map (class_getattr c2) field_names"
    and r: "read_all c1 ?ms = Inr (vs, c1')"
    and rv: "map Inr vs = map (class_getattr c1) ?ms"
    and after: "map (class_getattr c1') field_names = map (class_getattr c1) field_names"
    and vals: "map (class_getattr c1) field_names =
         [Inr (PyStr ''<BROKER_IP_ADDRESS>''), Inr (PyInt 7883), Inr (PyStr ''<your_username>''),
          Inr (PyStr ''<your_password>''), Inr (PyStr ''/iot/user/<your_username>''),
          Inr (PyStr ''vehicle''), Inr (PyStr ''telemetry''), Inr (PyStr ''info'')]"
    by (elim exE conjE)
  from vals have "class_getattr c1 ''BROKER_PORT'' = Inr (PyInt 7883)"
    and "class_getattr c1 ''MQTT_BASIC_TOPIC'' = Inr (PyStr ''/iot/user/<your_username>'')"
    by (simp_all add: field_names_def)
  with rv have "map Inr vs =
      [Inr (PyInt 7883), Inr (PyStr ''/iot/user/<your_username>''), Inr (PyInt 7883)
        :: error + pyval]"
    by simp
  then have "vs = [PyInt 7883, PyStr ''/iot/user/<your_username>'', PyInt 7883]"
    by (auto simp: map_eq_Cons_conv)
  with r have r': "read_all c1 ?ms
      = Inr ([PyInt 7883, PyStr ''/iot/user/<your_username>'', PyInt 7883], c1')"
    by simp
  have g1: "[''object'' \<mapsto> builtin_object] ''object'' = Some builtin_object"
    by simp
  have g2: "[''object'' \<mapsto> builtin_object, ''x'' \<mapsto> PyInt 1] ''object'' = Some builtin_object"
    by simp
  have ex: "\<exists>c1 c2 c1'. class_statement ?e1 = Inr c1 \<and> class_statement ?e2 = Inr c2
       \<and> map (class_getattr c1) field_names = map (class_getattr c2) field_names
       \<and> read_all c1 ?ms
            = Inr ([PyInt 7883, PyStr ''/iot/user/<your_username>'', PyInt 7883], c1')
       \<and> map (class_getattr c1') field_names = map (class_getattr c1) field_names"
    by (rule exI [of _ c1], rule exI [of _ c2], rule exI [of _ c1'], intro conjI)
       (rule b1 b2 same r' after)+
  from g1 g2 h3 ex show ?thesis
    by (intro conjI)
qed

text \<open>
  C7. The address and credential fields hold the placeholder literals
  \<^verbatim>\<open><BROKER_IP_ADDRESS>\<close>, \<^verbatim>\<open><your_username>\<close> and \<^verbatim>\<open><your_password>\<close>, and nothing
  validates them: each of the three statements succeeds in every namespace, storing its
  literal as it is, and the class is defined in every environment.
\<close>

theorem placeholder_fields_stored_unvalidated:
  "(class_body ! 0) globals ns = Inr (ns(''BROKER_ADDRESS'' \<mapsto> PyStr ''<BROKER_IP_ADDRESS>''))
   \<and> (class_body ! 2) globals ns = Inr (ns(''MQTT_USERNAME'' \<mapsto> PyStr ''<your_username>''))
   \<and> (class_body ! 3) globals ns = Inr (ns(''MQTT_PASSWORD'' \<mapsto> PyStr ''<your_password>''))
   \<and> (\<exists>c. MqttConfigurationParameters env = Inr c
          \<and> class_getattr c ''BROKER_ADDRESS'' = Inr (PyStr ''<BROKER_IP_ADDRESS>'')
          \<and> class_getattr c ''MQTT_USERNAME'' = Inr (PyStr ''<your_username>'')
          \<and> class_getattr c ''MQTT_PASSWORD'' = Inr (PyStr ''<your_password>''))"
proof (intro conjI)
  define c where "c = \<lparr>cls_dict = defined_namespace (env_initial env), cls_base = env_object env\<rparr>"
  have d: "cls_dict c = defined_namespace (env_initial env)"
    by (simp add: c_def)
  have built: "MqttConfigurationParameters env = Inr c"
    unfolding c_def by (rule class_defined)
  show "\<exists>c. MqttConfigurationParameters env = Inr c
          \<and> class_getattr c ''BROKER_ADDRESS'' = Inr (PyStr ''<BROKER_IP_ADDRESS>'')
          \<and> class_getattr c ''MQTT_USERNAME'' = Inr (PyStr ''<your_username>'')
          \<and> class_getattr c ''MQTT_PASSWORD'' = Inr (PyStr ''<your_password>'')"
    by (rule exI [of _ c]) (simp add: built class_fields [OF d])
qed (simp_all add: class_body_nth assign_literal)

text \<open>
  C8. Reading a field is total and read-only. There are eight field names; in every
  environment the class is defined, and reading any of the eight on it gives a value,
  never an error, namely the value the class dictionary holds under that name, and
  leaves the class as it was; a fresh instance reads the same value.
\<close>

theorem field_reads_total_and_pure:
  "\<exists>c. MqttConfigurationParameters env = Inr c
     \<and> length field_names = 8 \<and> distinct field_names
     \<and> (\<forall>n \<in> set field_names.
           \<exists>v. read_attr c n = Inr (v, c) \<and> cls_dict c n = Some v
              \<and> instance_getattr (instantiate c) n = Inr v)"
proof -
  define c where "c = \<lparr>cls_dict = defined_namespace (env_initial env), cls_base = env_object env\<rparr>"
  have d: "cls_dict c = defined_namespace (env_initial env)"
    by (simp add: c_def)
  have built: "MqttConfigurationParameters env = Inr c"
    unfolding c_def by (rule class_defined)
  have len: "length field_names = 8"
    by (simp add: field_names_def)
  have dist: "distinct field_names"
    by (simp add: field_names_def)
  have reads: "\<forall>n \<in> set field_names.
           \<exists>v. read_attr c n = Inr (v, c) \<and> cls_dict c n = Some v
              \<and> instance_getattr (instantiate c) n = Inr v"
    using d by (rule field_read)
  show ?thesis
    by (rule exI [of _ c], intro conjI) (rule built len dist reads)+
qed

theorem field_reads_total_and_pure_witness:
  "''BROKER_PORT'' \<in> set field_names
   \<and> (\<exists>c v. MqttConfigurationParameters
                \<lparr>env_globals = Map.empty, env_initial = Map.empty, env_object = Map.empty\<rparr> = Inr c
          \<and> read_attr c ''BROKER_PORT'' = Inr (v, c))"
proof -
  have mem: "''BROKER_PORT'' \<in> set field_names"
    by (simp add: field_names_def)
  from field_reads_total_and_pure
    [of "\<lparr>env_globals = Map.empty, env_initial = Map.empty, env_object = Map.empty\<rparr>"]
  show ?thesis
  proof (elim exE conjE)
    fix c
    assume built: "MqttConfigurationParameters
        \<lparr>env_globals = Map.empty, env_initial = Map.empty, env_object = Map.empty\<rparr> = Inr c"
      and reads: "\<forall>n \<in> set field_names.
           \<exists>v. read_attr c n = Inr (v, c) \<and> cls_dict c n = Some v
              \<and> instance_getattr (instantiate c) n = Inr v"
    from reads mem
    have "\<exists>v. read_attr c ''BROKER_PORT'' = Inr (v, c) \<and> cls_dict c ''BROKER_PORT'' = Some v
              \<and> instance_getattr (instantiate c) ''BROKER_PORT'' = Inr v"
      by (rule bspec)
    then obtain v where "read_attr c ''BROKER_PORT'' = Inr (v, c)"
      by (elim exE conjE)
    with built mem show ?thesis
      by (intro conjI exI [of _ c] exI [of _ v])
  qed
qed

text \<open>
  C9. \<^verbatim>\<open>MQTT_BASIC_TOPIC\<close> as defined is \<^verbatim>\<open>/iot/user/<your_username>\<close>: the username is
  the placeholder \<^verbatim>\<open><your_username>\<close> when the class is defined, and the basic topic
  ends with that placeholder text.
\<close>

theorem basic_topic_holds_placeholder:
  "\<exists>c u t. MqttConfigurationParameters env = Inr c
     \<and> class_getattr c ''MQTT_USERNAME'' = Inr (PyStr u)
     \<and> class_getattr c ''MQTT_BASIC_TOPIC'' = Inr (PyStr t)
     \<and> u = ''<your_username>''
     \<and> t = ''/iot/user/<your_username>''
     \<and> suffix u t"
proof -
  define c where "c = \<lparr>cls_dict = defined_namespace (env_initial env), cls_base = env_object env\<rparr>"
  have d: "cls_dict c = defined_namespace (env_initial env)"
    by (simp add: c_def)
  have built: "MqttConfigurationParameters env = Inr c"
    unfolding c_def by (rule class_defined)
  have "''/iot/user/<your_username>'' = ''/iot/user/'' @ ''<your_username>''"
    by simp
  then have suf: "suffix ''<your_username>'' ''/iot/user/<your_username>''"
    by (rule suffixI)
  show ?thesis
    by (rule exI [of _ c], rule exI [of _ "''<your_username>''"],
        rule exI [of _ "''/iot/user/<your_username>''"], intro conjI)
       (rule built class_fields [OF d] refl suf)+
qed

text \<open>
  C10. The shape of the topic parts: none of the three segments contains the separator
  \<^verbatim>\<open>/\<close>, and \<^verbatim>\<open>MQTT_BASIC_TOPIC\<close> begins with \<^verbatim>\<open>/\<close> and does not end with it.
\<close>

theorem topic_separator_shape:
  "\<exists>c s1 s2 s3 t. MqttConfigurationParameters env = Inr c
     \<and> class_getattr c ''VEHICLE_TOPIC'' = Inr (PyStr s1)
     \<and> class_getattr c ''VEHICLE_TELEMETRY_TOPIC'' = Inr (PyStr s2)
     \<and> class_getattr c ''VEHICLE_INFO_TOPIC'' = Inr (PyStr s3)
     \<and> class_getattr c ''MQTT_BASIC_TOPIC'' = Inr (PyStr t)
     \<and> CHR ''/'' \<notin> set s1 \<and> CHR ''/'' \<notin> set s2 \<and> CHR ''/'' \<notin> set s3
     \<and> prefix ''/'' t \<and> \<not> suffix ''/'' t"
proof -
  define c where "c = \<lparr>cls_dict = defined_namespace (env_initial env), cls_base = env_object env\<rparr>"
  have d: "cls_dict c = defined_namespace (env_initial env)"
    by (simp add: c_def)
  have built: "MqttConfigurationParameters env = Inr c"
    unfolding c_def by (rule class_defined)
  have ends: "\<not> suffix ''/'' ''/iot/user/<your_username>''"
    unfolding suffix_to_prefix by simp
  show ?thesis
    by (rule exI [of _ c], rule exI [of _ "''vehicle''"], rule exI [of _ "''telemetry''"],
        rule exI [of _ "''info''"], rule exI [of _ "''/iot/user/<your_username>''"])
       (simp add: built class_fields [OF d] ends)
qed

end
